theory Spec2Isabelle
  imports Main "HOL-Library.Multiset" "HOL-Library.Sublist"
begin

section \<open>Python strings\<close>

text \<open>
  A Python \<open>str\<close> is a sequence of Unicode code points, and \<open>len\<close>, slicing, \<open>in\<close>
  and \<open>split\<close> count code points. A string is therefore a list of code points; the
  literals of the script are written out as the code points of their characters.
\<close>

type_synonym ustr = "nat list"

definition isspace :: "nat \<Rightarrow> bool" where
  \<comment> \<open>the characters \<open>str.strip()\<close> removes: those for which \<open>str.isspace\<close> holds\<close>
  "isspace c =
     ((9 \<le> c \<and> c \<le> 13) \<or> (28 \<le> c \<and> c \<le> 32) \<or> c = 133 \<or> c = 160 \<or> c = 5760 \<or>
      (8192 \<le> c \<and> c \<le> 8202) \<or> c = 8232 \<or> c = 8233 \<or> c = 8239 \<or> c = 8287 \<or>
      c = 12288)"

definition strip :: "ustr \<Rightarrow> ustr" where
  \<comment> \<open>\<open>s.strip()\<close>\<close>
  "strip s = rev (dropWhile isspace (rev (dropWhile isspace s)))"

definition startswith :: "ustr \<Rightarrow> ustr \<Rightarrow> bool" where
  \<comment> \<open>\<open>s.startswith(p)\<close>\<close>
  "startswith s p = (take (length p) s = p)"

fun split_on :: "nat \<Rightarrow> ustr \<Rightarrow> ustr list" where
  \<comment> \<open>\<open>s.split(sep)\<close> for a separator of one character: never the empty list\<close>
  "split_on sep [] = [[]]"
| "split_on sep (c # cs) =
     (if c = sep then [] # split_on sep cs
      else (case split_on sep cs of
              [] \<Rightarrow> [[c]]
            | w # ws \<Rightarrow> (c # w) # ws))"

fun join :: "ustr \<Rightarrow> ustr list \<Rightarrow> ustr" where
  \<comment> \<open>\<open>sep.join(parts)\<close>\<close>
  "join sep [] = []"
| "join sep [x] = x"
| "join sep (x # y # ys) = x @ sep @ join sep (y # ys)"

fun str_nat :: "nat \<Rightarrow> ustr" where
  \<comment> \<open>\<open>str(n)\<close> for \<open>n \<ge> 0\<close>: the decimal digits\<close>
  "str_nat n = (if n < 10 then [48 + n] else str_nat (n div 10) @ [48 + n mod 10])"

definition str_int :: "int \<Rightarrow> ustr" where
  \<comment> \<open>\<open>str(i)\<close>, as an f-string formats an \<open>int\<close>\<close>
  "str_int i = (if i < 0 then 45 # str_nat (nat (- i)) else str_nat (nat i))"

definition slice_to :: "int \<Rightarrow> 'a list \<Rightarrow> 'a list" where
  \<comment> \<open>\<open>xs[:n]\<close>: a negative bound counts from the end\<close>
  "slice_to n xs =
     (if 0 \<le> n then take (nat n) xs else take (length xs - nat (- n)) xs)"

section \<open>Image candidates and the heuristic selection\<close>

text \<open>
  The dictionary built per image by \<open>select_best_images_with_ai\<close> always has the same
  five keys; the fields carry the types of the \<open>RestaurantPost\<close> fields they copy.
\<close>

record candidate =
  url :: ustr
  post_title :: ustr
  post_desc :: ustr
  cand_liked :: int
  post_url :: ustr

definition sort_by_liked :: "candidate list \<Rightarrow> candidate list" where
  \<comment> \<open>\<open>candidates.sort(key=lambda x: x['liked_count'], reverse=True)\<close>: Python's sort is
      stable, and with \<open>reverse=True\<close> equal keys keep their original order\<close>
  "sort_by_liked cands = sort_key (\<lambda>c. - cand_liked c) cands"

fun heuristic_scan :: "candidate list \<Rightarrow> int \<Rightarrow> ustr list \<Rightarrow> ustr set \<Rightarrow> ustr list" where
  \<comment> \<open>the \<open>for candidate in candidates\<close> loop, with \<open>selected\<close> and \<open>seen_urls\<close>\<close>
  "heuristic_scan [] num_images selected seen_urls = selected"
| "heuristic_scan (c # cs) num_images selected seen_urls =
     (if num_images \<le> int (length selected) then selected
      else if url c \<notin> seen_urls \<and> strip (url c) \<noteq> []
           then heuristic_scan cs num_images (selected @ [url c]) (insert (url c) seen_urls)
           else heuristic_scan cs num_images selected seen_urls)"

definition heuristic_image_selection ::
  "candidate list \<Rightarrow> int \<Rightarrow> ustr list \<times> candidate list" where
  \<comment> \<open>\<open>_heuristic_image_selection\<close>: the list returned, and the contents of the
      caller's list object afterwards (it is sorted in place)\<close>
  "heuristic_image_selection candidates num_images =
     (let candidates' = sort_by_liked candidates;
          selected = heuristic_scan candidates' num_images [] {}
      in (slice_to num_images selected, candidates'))"

section \<open>Exceptions, built-ins and the outside world\<close>

text \<open>
  The exceptions the script can meet. \<open>NoPostsError\<close> is the \<open>ValueError\<close> that \<open>run\<close>
  raises with its own message at line 466; \<open>ValueError\<close> is the one of \<open>int()\<close>;
  \<open>Upstream\<close> is a failure of a collaborator (crawler, store) with its code. All are
  subclasses of \<open>Exception\<close>, so \<open>except Exception\<close> catches each of them.
\<close>

datatype exn = Exception | AttributeError | ValueError | TypeError | NoPostsError | Upstream nat

text \<open>
  What a completion backend hands back when it does not fail: the \<open>content\<close> of the
  first choice, or the \<open>response\<close> field of the JSON object. It is a string, or some
  other value (\<open>None\<close>, a number, a list) on which \<open>split\<close> and \<open>strip\<close> do not exist.
\<close>

datatype reply = Text ustr | NotText

text \<open>
  Two built-ins of Python are parameters of the model: \<open>str.lower\<close> (the case mapping
  of Unicode) and \<open>int\<close> on a string (\<open>None\<close> where it raises \<open>ValueError\<close>).
\<close>

record builtins =
  str_lower :: "ustr \<Rightarrow> ustr"
  int_str :: "ustr \<Rightarrow> int option"

datatype dbval = DbNull | DbStr ustr | DbInt int

record db_row =
  row_note_id :: ustr
  row_title :: ustr
  row_desc :: ustr
  row_liked_count :: dbval
  row_comment_count :: dbval
  row_collected_count :: dbval
  row_image_list :: "ustr option"
  row_note_url :: ustr
  row_nickname :: ustr

text \<open>
  The environment of one run: the credential and the import flags read by
  \<open>AIModelManager\<close>, the two completion services as functions of the prompt (a failure
  carries a code), and the outcomes of the crawler, of the store's query and of
  \<open>db.close()\<close>.
\<close>

record world =
  openai_api_key :: "ustr option"
  HAS_OPENAI :: bool
  HAS_REQUESTS :: bool
  openai_acreate :: "ustr \<Rightarrow> nat + reply"
  requests_post :: "ustr \<Rightarrow> nat + reply"
  crawler_start :: "nat option"
  db_query :: "nat + db_row list"
  db_close :: "nat option"

section \<open>AIModelManager\<close>

subsection \<open>Prompts\<close>

definition cand_url_label :: ustr where
  \<comment> \<open>line 181\<close>
  "cand_url_label =
     [46, 32, 85, 82, 76, 58, 32]"

definition cand_title_label :: ustr where
  \<comment> \<open>line 182\<close>
  "cand_title_label =
     [32, 32, 32, 24086, 23376, 26631, 39064, 58, 32]"

definition cand_liked_label :: ustr where
  \<comment> \<open>line 183\<close>
  "cand_liked_label =
     [32, 32, 32, 28857, 36190, 25968, 58, 32]"

definition cand_desc_label :: ustr where
  \<comment> \<open>line 184\<close>
  "cand_desc_label =
     [32, 32, 32, 25551, 36848, 29255, 27573, 58, 32]"




fun format_candidate_lines :: "nat \<Rightarrow> candidate list \<Rightarrow> ustr list" where
  \<comment> \<open>the loop of \<open>_format_image_candidates_for_ai\<close> over \<open>enumerate(candidates, i)\<close>\<close>
  "format_candidate_lines i [] = []"
| "format_candidate_lines i (candidate # rest) =
     [str_nat i @ cand_url_label @ url candidate,
      cand_title_label @ post_title candidate,
      cand_liked_label @ str_int (cand_liked candidate),
      cand_desc_label @ take 100 (post_desc candidate) @ [46, 46, 46],
      []] @ format_candidate_lines (Suc i) rest"

definition format_image_candidates_for_ai :: "candidate list \<Rightarrow> ustr" where
  "format_image_candidates_for_ai candidates = join [10] (format_candidate_lines 1 candidates)"

text \<open>
  The reference dictionaries built by \<open>generate_dianping_content_with_ai\<close>, with their
  three keys.
\<close>

record reference =
  ref_title :: ustr
  ref_desc :: ustr
  ref_liked :: int



definition select_prompt_1 :: ustr where
  \<comment> \<open>literal part 1 of the prompt f-string of analyze_images_content (source line 77 ff.), as code points\<close>
  "select_prompt_1 =
     [10, 32, 32, 32, 32, 32, 32, 32, 32, 20316, 20026, 32654, 39135, 22270, 29255, 20998, 26512,
     19987, 23478, 65292, 35831, 20174, 20197, 19979, 22270, 29255, 20505, 36873, 21015, 34920,
     20013, 31579, 36873, 20986, 26368, 36866, 21512]"

definition select_prompt_2 :: ustr where
  \<comment> \<open>literal part 2 of the prompt f-string of analyze_images_content (source line 77 ff.), as code points\<close>
  "select_prompt_2 =
     [20027, 39064, 30340]"

definition select_prompt_3 :: ustr where
  \<comment> \<open>literal part 3 of the prompt f-string of analyze_images_content (source line 77 ff.), as code points\<close>
  "select_prompt_3 =
     [24352, 22270, 29255, 12290, 10, 10, 32, 32, 32, 32, 32, 32, 32, 32, 31579, 36873, 26631,
     20934, 65306, 10, 32, 32, 32, 32, 32, 32, 32, 32, 49, 46, 32, 22270, 29255, 20869, 23481,
     19982]"

definition select_prompt_4 :: ustr where
  \<comment> \<open>literal part 4 of the prompt f-string of analyze_images_content (source line 77 ff.), as code points\<close>
  "select_prompt_4 =
     [39640, 24230, 30456, 20851, 10, 32, 32, 32, 32, 32, 32, 32, 32, 50, 46, 32, 22270, 29255,
     36136, 37327, 39640, 65292, 26500, 22270, 32654, 35266, 10, 32, 32, 32, 32, 32, 32, 32, 32,
     51, 46, 32, 33021, 20307, 29616, 39135, 29289, 30340, 33394, 39321, 21619, 10, 32, 32, 32,
     32, 32, 32, 32, 32, 52, 46, 32, 36866, 21512, 22312, 22823, 20247, 28857, 35780, 31561,
     32654, 39135, 24179, 21488, 23637, 31034, 10, 32, 32, 32, 32, 32, 32, 32, 32, 53, 46, 32,
     22270, 29255, 26469, 28304, 24086, 23376, 30340, 28857, 36190, 25968, 36739, 39640, 10, 10,
     32, 32, 32, 32, 32, 32, 32, 32, 20505, 36873, 22270, 29255, 20449, 24687, 65306, 10, 32, 32,
     32, 32, 32, 32, 32, 32]"

definition select_prompt_5 :: ustr where
  \<comment> \<open>literal part 5 of the prompt f-string of analyze_images_content (source line 77 ff.), as code points\<close>
  "select_prompt_5 =
     [10, 10, 32, 32, 32, 32, 32, 32, 32, 32, 35831, 30452, 25509, 36820, 22238, 31579, 36873,
     20986, 30340, 22270, 29255, 85, 82, 76, 21015, 34920, 65292, 27599, 34892, 19968, 20010, 85,
     82, 76, 65292, 19981, 38656, 35201, 20854, 20182, 35299, 37322, 12290, 10, 32, 32, 32, 32,
     32, 32, 32, 32]"





definition select_prompt :: "candidate list \<Rightarrow> ustr \<Rightarrow> int \<Rightarrow> ustr" where
  \<comment> \<open>the prompt of \<open>analyze_images_content\<close>, built before its \<open>try\<close>\<close>
  "select_prompt image_candidates keyword num_images =
     select_prompt_1 @ keyword @ select_prompt_2 @ str_int num_images @ select_prompt_3 @
     keyword @ select_prompt_4 @ format_image_candidates_for_ai (take 30 image_candidates) @
     select_prompt_5"


subsection \<open>Backends\<close>

definition call_openai :: "world \<Rightarrow> ustr \<Rightarrow> exn + reply" where
  \<comment> \<open>\<open>_call_openai\<close>: every failure is raised again as an \<open>Exception\<close>\<close>
  "call_openai w prompt =
     (case openai_acreate w prompt of
        Inl code \<Rightarrow> Inl Exception
      | Inr content \<Rightarrow> Inr content)"

definition call_local_model :: "world \<Rightarrow> ustr \<Rightarrow> exn + reply" where
  \<comment> \<open>\<open>_call_local_model\<close>\<close>
  "call_local_model w prompt =
     (if \<not> HAS_REQUESTS w then Inl Exception
      else (case requests_post w prompt of
              Inl code \<Rightarrow> Inl Exception
            | Inr response \<Rightarrow> Inr response))"

definition use_openai :: "world \<Rightarrow> bool" where
  \<comment> \<open>\<open>self.openai_api_key and HAS_OPENAI\<close>: a key that is neither \<open>None\<close> nor empty\<close>
  "use_openai w =
     ((case openai_api_key w of None \<Rightarrow> False | Some k \<Rightarrow> k \<noteq> []) \<and> HAS_OPENAI w)"

definition call_backend :: "world \<Rightarrow> ustr \<Rightarrow> exn + reply" where
  "call_backend w prompt =
     (if use_openai w then call_openai w prompt else call_local_model w prompt)"

subsection \<open>Selection\<close>

definition http :: ustr where
  \<comment> \<open>\<open>'http'\<close>\<close>
  "http = [104, 116, 116, 112]"

definition parse_url_lines :: "ustr \<Rightarrow> ustr list" where
  \<comment> \<open>the comprehension of line 100 over \<open>response.split('\n')\<close>\<close>
  "parse_url_lines response =
     map strip
       (filter (\<lambda>line. strip line \<noteq> [] \<and> startswith (strip line) http)
               (split_on 10 response))"

definition selection_try :: "world \<Rightarrow> ustr \<Rightarrow> int \<Rightarrow> exn + ustr list" where
  \<comment> \<open>the body of the \<open>try\<close> of \<open>analyze_images_content\<close>\<close>
  "selection_try w prompt num_images =
     (case call_backend w prompt of
        Inl e \<Rightarrow> Inl e
      | Inr NotText \<Rightarrow> Inl AttributeError
      | Inr (Text response) \<Rightarrow> Inr (slice_to num_images (parse_url_lines response)))"

definition analyze_images_content ::
  "world \<Rightarrow> candidate list \<Rightarrow> ustr \<Rightarrow> int \<Rightarrow> (exn + ustr list) \<times> candidate list" where
  \<comment> \<open>the value returned (or the exception raised), and the contents of the caller's
      candidate list afterwards\<close>
  "analyze_images_content w image_candidates keyword num_images =
     (let prompt = select_prompt image_candidates keyword num_images
      in case selection_try w prompt num_images of
           Inr urls \<Rightarrow> (Inr urls, image_candidates)
         | Inl e \<Rightarrow>
             (case heuristic_image_selection image_candidates num_images of
                (selected, candidates') \<Rightarrow> (Inr selected, candidates')))"

subsection \<open>Synthesis\<close>

definition taste_words :: "ustr list" where
  \<comment> \<open>the word list of line 227\<close>
  "taste_words = [[22909, 21507], [32654, 21619], [39321], [23273], [40092]]"

definition taste_tag :: ustr where
  \<comment> \<open>the tag appended at line 228\<close>
  "taste_tag =
     [21475, 21619, 20339]"

definition ambience_words :: "ustr list" where
  \<comment> \<open>the word list of line 229\<close>
  "ambience_words = [[29615, 22659], [35013, 20462], [27675, 22260], [24215, 38754]]"

definition ambience_tag :: ustr where
  \<comment> \<open>the tag appended at line 230\<close>
  "ambience_tag =
     [29615, 22659, 22909]"

definition service_words :: "ustr list" where
  \<comment> \<open>the word list of line 231\<close>
  "service_words = [[26381, 21153], [24577, 24230], [28909, 24773]]"

definition service_tag :: ustr where
  \<comment> \<open>the tag appended at line 232\<close>
  "service_tag =
     [26381, 21153, 22909]"

definition value_words :: "ustr list" where
  \<comment> \<open>the word list of line 233\<close>
  "value_words = [[21010, 31639], [20415, 23452], [23454, 24800], [24615, 20215, 27604]]"

definition value_tag :: ustr where
  \<comment> \<open>the tag appended at line 234\<close>
  "value_tag =
     [24615, 20215, 27604, 39640]"

fun scan_keywords :: "(ustr \<Rightarrow> ustr) \<Rightarrow> reference list \<Rightarrow> ustr list \<Rightarrow> ustr list" where
  \<comment> \<open>the \<open>for post in reference_posts\<close> loop, with \<open>keywords_found\<close>\<close>
  "scan_keywords lower [] keywords_found = keywords_found"
| "scan_keywords lower (post # rest) keywords_found =
     (let text = lower (ref_title post @ [32] @ ref_desc post);
          found1 = (if list_ex (\<lambda>word. sublist word text) taste_words
                    then keywords_found @ [taste_tag] else keywords_found);
          found2 = (if list_ex (\<lambda>word. sublist word text) ambience_words
                    then found1 @ [ambience_tag] else found1);
          found3 = (if list_ex (\<lambda>word. sublist word text) service_words
                    then found2 @ [service_tag] else found2);
          found4 = (if list_ex (\<lambda>word. sublist word text) value_words
                    then found3 @ [value_tag] else found3)
      in scan_keywords lower rest found4)"

definition title_1 :: ustr where
  \<comment> \<open>line 237, before the keyword\<close>
  "title_1 =
     [25506, 24215]"

definition title_2 :: ustr where
  \<comment> \<open>line 237, after the keyword\<close>
  "title_2 =
     [32, 124, 32, 36825, 23478, 24215, 30495, 30340, 32477, 20102, 65281, 128248, 10024]"

definition intro_1 :: ustr where
  \<comment> \<open>line 241, before the keyword\<close>
  "intro_1 =
     [127830, 32, 20170, 22825, 26469, 25506, 24215, 20256, 35828, 20013, 30340]"

definition intro_2 :: ustr where
  \<comment> \<open>line 241, after the keyword\<close>
  "intro_2 =
     [65292, 30495, 30340, 26159, 34987, 24778, 33395, 21040, 20102, 65281]"

definition taste_heading :: ustr where
  \<comment> \<open>line 243\<close>
  "taste_heading =
     [12304, 21475, 21619, 21334, 30456, 12305, 11088, 11088, 11088, 11088, 11088]"

definition taste_body :: ustr where
  \<comment> \<open>line 244\<close>
  "taste_body =
     [28900, 32905, 30340, 28779, 20505, 25484, 25569, 24471, 21018, 21018, 22909, 65292, 22806,
     28966, 20869, 23273, 65292, 27599, 19968, 21475, 37117, 33021, 24863, 21463, 21040, 32905,
     27713, 30340, 40092, 32654, 128167, 32, 25670, 30424, 20063, 24456, 29992, 24515, 65292,
     39068, 20540, 21644, 21619, 36947, 37117, 22312, 32447, 128077]"

definition service_heading :: ustr where
  \<comment> \<open>line 246\<close>
  "service_heading =
     [12304, 26381, 21153, 20307, 39564, 12305, 11088, 11088, 11088, 11088]"

definition service_body :: ustr where
  \<comment> \<open>line 247\<close>
  "service_body =
     [26381, 21153, 21592, 23567, 22992, 22992, 36229, 32423, 28909, 24773, 65292, 20250, 20027,
     21160, 24110, 24537, 28900, 32905, 65292, 36824, 20250, 25512, 33616, 22909, 21507, 30340,
     25645, 37197, 129392, 32, 25972, 20010, 29992, 39184, 36807, 31243, 24456, 24841, 24555]"

definition ambience_heading :: ustr where
  \<comment> \<open>line 249\<close>
  "ambience_heading =
     [12304, 29615, 22659, 27675, 22260, 12305, 11088, 11088, 11088, 11088]"

definition ambience_body :: ustr where
  \<comment> \<open>line 250\<close>
  "ambience_body =
     [24215, 20869, 35013, 20462, 24456, 26377, 29305, 33394, 65292, 28783, 20809, 27675, 22260,
     33829, 36896, 24471, 24456, 26834, 10024, 32, 36866, 21512, 21644, 26379, 21451, 32858,
     39184, 65292, 25293, 29031, 20063, 24456, 22909, 30475, 128247]"

definition price_heading :: ustr where
  \<comment> \<open>line 252\<close>
  "price_heading =
     [12304, 20215, 26684, 27700, 24179, 12305, 11088, 11088, 11088, 11088]"

definition price_body :: ustr where
  \<comment> \<open>line 253\<close>
  "price_body =
     [20154, 22343, 28040, 36153, 21512, 29702, 65292, 20998, 37327, 36275, 22815, 65292, 24615,
     20215, 27604, 36824, 26159, 24456, 19981, 38169, 30340, 128176, 32, 23398, 29983, 20826,
     20063, 21487, 20197, 25215, 21463]"

definition hashtags :: ustr where
  \<comment> \<open>line 257\<close>
  "hashtags =
     [35, 32654, 39135, 25506, 24215, 32, 35, 28900, 32905, 25512, 33616, 32, 35, 21271, 20140,
     32654, 39135]"

definition closing_1 :: ustr where
  \<comment> \<open>line 255, before the keyword\<close>
  "closing_1 =
     [24635, 30340, 26469, 35828, 65292]"

definition closing_2 :: ustr where
  \<comment> \<open>line 255, after the keyword\<close>
  "closing_2 =
     [30495, 30340, 20540, 24471, 19968, 35797, 65281, 24050, 32463, 39044, 32422, 19979, 27425,
     24102, 23478, 20154, 26469, 20102, 127881]"

definition generate_template_content :: "builtins \<Rightarrow> reference list \<Rightarrow> ustr \<Rightarrow> ustr" where
  \<comment> \<open>\<open>_generate_template_content\<close>\<close>
  "generate_template_content b reference_posts keyword =
     (let keywords_found = scan_keywords (str_lower b) reference_posts [];
          title = title_1 @ keyword @ title_2;
          content_parts =
            [intro_1 @ keyword @ intro_2,
             [],
             taste_heading,
             taste_body,
             [],
             service_heading,
             service_body,
             [],
             ambience_heading,
             ambience_body,
             [],
             price_heading,
             price_body,
             [],
             closing_1 @ keyword @ closing_2,
             [],
             hashtags]
      in title @ [10, 10] @ join [10] content_parts)"



section \<open>XhsToDianpingGenerator\<close>

record RestaurantPost =
  note_id :: ustr
  title :: ustr
  desc :: ustr
  liked_count :: int
  comment_count :: int
  collected_count :: int
  image_list :: "ustr list"
  note_url :: ustr
  nickname :: ustr

record generator =
  keyword :: ustr
  posts :: "RestaurantPost list"
  selected_images :: "ustr list"
  generated_content :: ustr

subsection \<open>The query and its rows\<close>

text \<open>
  The \<open>WHERE\<close> clause of the query (lines 342 to 346) is evaluated by the store. Its
  test on \<open>source_keyword\<close> is a parameter; \<open>col IS NOT NULL AND col != ''\<close> is read with
  exact string comparison, and for a number as the comparison with \<open>0\<close> that MySQL makes.
\<close>

definition sql_not_empty :: "dbval \<Rightarrow> bool" where
  \<comment> \<open>\<open>col IS NOT NULL AND col != ''\<close>\<close>
  "sql_not_empty v = (case v of DbNull \<Rightarrow> False | DbStr s \<Rightarrow> s \<noteq> [] | DbInt i \<Rightarrow> i \<noteq> 0)"

definition where_clause :: "(db_row \<Rightarrow> bool) \<Rightarrow> db_row \<Rightarrow> bool" where
  "where_clause keyword_matches r =
     (keyword_matches r \<and> sql_not_empty (row_liked_count r) \<and>
      (case row_image_list r of None \<Rightarrow> False | Some s \<Rightarrow> s \<noteq> []))"

definition admitted :: "(db_row \<Rightarrow> bool) \<Rightarrow> db_row list \<Rightarrow> db_row list" where
  \<comment> \<open>the records of the table that the \<open>WHERE\<close> clause admits, before \<open>ORDER BY\<close>
      and \<open>LIMIT\<close>\<close>
  "admitted keyword_matches table = filter (where_clause keyword_matches) table"

definition parse_image_list :: "ustr option \<Rightarrow> ustr list" where
  \<comment> \<open>lines 357 to 359: \<open>None\<close> and the empty string are falsy\<close>
  "parse_image_list field =
     (case field of
        None \<Rightarrow> []
      | Some s \<Rightarrow>
          if s = [] then []
          else map strip (filter (\<lambda>img. strip img \<noteq> []) (split_on 44 s)))"

definition int_or_zero :: "builtins \<Rightarrow> dbval \<Rightarrow> exn + int" where
  \<comment> \<open>\<open>int(v or 0)\<close>: \<open>None\<close>, \<open>''\<close> and \<open>0\<close> are falsy\<close>
  "int_or_zero b v =
     (case v of
        DbNull \<Rightarrow> Inr 0
      | DbInt i \<Rightarrow> Inr i
      | DbStr s \<Rightarrow>
          if s = [] then Inr 0
          else (case int_str b s of None \<Rightarrow> Inl ValueError | Some i \<Rightarrow> Inr i))"

definition liked_count_of :: "builtins \<Rightarrow> dbval \<Rightarrow> exn + int" where
  \<comment> \<open>lines 362 to 366: \<open>except (ValueError, TypeError)\<close> gives \<open>0\<close>\<close>
  "liked_count_of b v =
     (case int_or_zero b v of
        Inr i \<Rightarrow> Inr i
      | Inl e \<Rightarrow> if e = ValueError \<or> e = TypeError then Inr 0 else Inl e)"

definition row_to_post :: "builtins \<Rightarrow> db_row \<Rightarrow> exn + RestaurantPost" where
  \<comment> \<open>the body of the \<open>for row in rows\<close> loop\<close>
  "row_to_post b row =
     (let images = parse_image_list (row_image_list row)
      in case liked_count_of b (row_liked_count row) of
           Inl e \<Rightarrow> Inl e
         | Inr liked \<Rightarrow>
             (case int_or_zero b (row_comment_count row) of
                Inl e \<Rightarrow> Inl e
              | Inr comments \<Rightarrow>
                  (case int_or_zero b (row_collected_count row) of
                     Inl e \<Rightarrow> Inl e
                   | Inr collected \<Rightarrow>
                       Inr \<lparr>note_id = row_note_id row, title = row_title row,
                            desc = row_desc row, liked_count = liked,
                            comment_count = comments, collected_count = collected,
                            image_list = images, note_url = row_note_url row,
                            nickname = row_nickname row\<rparr>)))"

fun convert_rows ::
  "builtins \<Rightarrow> db_row list \<Rightarrow> RestaurantPost list \<Rightarrow> exn + RestaurantPost list" where
  \<comment> \<open>the \<open>for row in rows\<close> loop, with \<open>posts\<close>; an exception leaves the loop\<close>
  "convert_rows b [] acc = Inr acc"
| "convert_rows b (row # rows) acc =
     (case row_to_post b row of
        Inl e \<Rightarrow> Inl e
      | Inr post \<Rightarrow> convert_rows b rows (acc @ [post]))"


subsection \<open>Candidate aggregation and the two stages\<close>

definition candidate_of :: "RestaurantPost \<Rightarrow> ustr \<Rightarrow> candidate" where
  \<comment> \<open>the dictionary of lines 405 to 411\<close>
  "candidate_of post img_url =
     \<lparr>url = img_url, post_title = title post, post_desc = desc post,
      cand_liked = liked_count post, post_url = note_url post\<rparr>"

fun post_images :: "RestaurantPost \<Rightarrow> ustr list \<Rightarrow> candidate list \<Rightarrow> candidate list" where
  \<comment> \<open>the inner loop \<open>for img_url in post.image_list\<close>\<close>
  "post_images post [] image_candidates = image_candidates"
| "post_images post (img_url # rest) image_candidates =
     post_images post rest (image_candidates @ [candidate_of post img_url])"

fun all_images :: "RestaurantPost list \<Rightarrow> candidate list \<Rightarrow> candidate list" where
  \<comment> \<open>the outer loop \<open>for post in self.posts[:50]\<close>\<close>
  "all_images [] image_candidates = image_candidates"
| "all_images (post # rest) image_candidates =
     all_images rest (post_images post (image_list post) image_candidates)"

definition collect_candidates :: "RestaurantPost list \<Rightarrow> candidate list" where
  \<comment> \<open>lines 402 to 411\<close>
  "collect_candidates ps = all_images (take 50 ps) []"




subsection \<open>The orchestrator\<close>







section \<open>Specification vocabulary and concrete inputs\<close>

text \<open>
  The first occurrence of every element, in order: what a scan that skips exact
  duplicates keeps.
\<close>

fun first_occurrences :: "'a list \<Rightarrow> 'a list" where
  "first_occurrences [] = []"
| "first_occurrences (x # xs) = x # first_occurrences (filter (\<lambda>y. y \<noteq> x) xs)"

definition nonblank_urls :: "candidate list \<Rightarrow> ustr set" where
  \<comment> \<open>the distinct non-blank URLs among the candidates\<close>
  "nonblank_urls cands = set (filter (\<lambda>u. strip u \<noteq> []) (map url cands))"

subsection \<open>Concrete inputs\<close>

text \<open>
  Instances of the two built-ins for the concrete inputs below. They agree with Python
  on strings of ASCII letters, signs and digits (Python's \<open>int\<close> also takes underscores
  between digits and the decimal digits of other scripts, and \<open>lower\<close> maps the cased
  letters of every script; no input below has any).
\<close>

definition digits_ascii :: "ustr \<Rightarrow> int option" where
  "digits_ascii ds =
     (if ds \<noteq> [] \<and> list_all (\<lambda>c. 48 \<le> c \<and> c \<le> 57) ds
      then Some (int (foldl (\<lambda>a c. 10 * a + (c - 48)) 0 ds)) else None)"

definition int_ascii :: "ustr \<Rightarrow> int option" where
  "int_ascii s =
     (case strip s of
        [] \<Rightarrow> None
      | c # cs \<Rightarrow>
          if c = 45 then map_option uminus (digits_ascii cs)
          else if c = 43 then digits_ascii cs
          else digits_ascii (c # cs))"

definition lower_ascii :: "ustr \<Rightarrow> ustr" where
  "lower_ascii s = map (\<lambda>c. if 65 \<le> c \<and> c \<le> 90 then c + 32 else c) s"

definition python :: builtins where
  "python = \<lparr>str_lower = lower_ascii, int_str = int_ascii\<rparr>"

definition kw :: ustr where
  \<comment> \<open>the keyword \<open>bbq\<close>\<close>
  "kw = [98, 98, 113]"

definition url_a :: ustr where
  \<comment> \<open>\<open>http://a\<close>\<close>
  "url_a = [104, 116, 116, 112, 58, 47, 47, 97]"

definition url_b :: ustr where
  \<comment> \<open>\<open>http://b\<close>\<close>
  "url_b = [104, 116, 116, 112, 58, 47, 47, 98]"

definition url_c :: ustr where
  \<comment> \<open>\<open>http://c\<close>\<close>
  "url_c = [104, 116, 116, 112, 58, 47, 47, 99]"

definition cand :: "ustr \<Rightarrow> int \<Rightarrow> candidate" where
  \<comment> \<open>a candidate with the given URL and liked count, its texts empty\<close>
  "cand u n = \<lparr>url = u, post_title = [], post_desc = [], cand_liked = n, post_url = []\<rparr>"

definition scenario_candidates :: "candidate list" where
  \<comment> \<open>liked counts 50, 200, 200 and 10; one URL twice, one URL blank\<close>
  "scenario_candidates =
     [cand url_a 50, cand url_b 200, cand url_c 200, cand [32] 200, cand url_b 10]"

definition post_with :: "ustr \<Rightarrow> int \<Rightarrow> ustr list \<Rightarrow> RestaurantPost" where
  \<comment> \<open>a post with the given title, liked count and images\<close>
  "post_with t n imgs =
     \<lparr>note_id = [], title = t, desc = [], liked_count = n, comment_count = 0,
      collected_count = 0, image_list = imgs, note_url = [], nickname = []\<rparr>"

definition two_posts :: "RestaurantPost list" where
  \<comment> \<open>two posts that share the image \<open>http://a\<close>\<close>
  "two_posts = [post_with [112] 50 [url_a, url_b], post_with [113] 200 [url_a]]"

definition tasty_reference :: reference where
  \<comment> \<open>a reference post whose description is the first word of the taste list\<close>
  "tasty_reference = \<lparr>ref_title = [], ref_desc = [22909, 21507], ref_liked = 7\<rparr>"

definition url_x :: ustr where
  \<comment> \<open>\<open>http://x\<close>\<close>
  "url_x = [104, 116, 116, 112, 58, 47, 47, 120]"

definition two_candidates :: "candidate list" where
  \<comment> \<open>liked counts 50 and 200, in that order\<close>
  "two_candidates = [cand url_a 50, cand url_b 200]"

definition offline_world :: world where
  \<comment> \<open>no credential, neither library installed, an empty store\<close>
  "offline_world =
     \<lparr>openai_api_key = None, HAS_OPENAI = False, HAS_REQUESTS = False,
      openai_acreate = (\<lambda>prompt. Inl 0), requests_post = (\<lambda>prompt. Inl 0),
      crawler_start = None, db_query = Inr [], db_close = None\<rparr>"

definition chatty_world :: world where
  \<comment> \<open>no credential; the local model answers every prompt with the line \<open>http://x\<close>\<close>
  "chatty_world =
     \<lparr>openai_api_key = None, HAS_OPENAI = False, HAS_REQUESTS = True,
      openai_acreate = (\<lambda>prompt. Inl 0), requests_post = (\<lambda>prompt. Inr (Text url_x)),
      crawler_start = None, db_query = Inr [], db_close = None\<rparr>"

definition any_keyword :: "db_row \<Rightarrow> bool" where
  \<comment> \<open>a store in which every record carries the keyword searched for\<close>
  "any_keyword r = True"

definition row_with :: "dbval \<Rightarrow> ustr option \<Rightarrow> db_row" where
  \<comment> \<open>a record with the given \<open>liked_count\<close> and \<open>image_list\<close>, its other counters
      \<open>NULL\<close> and its texts empty\<close>
  "row_with liked images =
     \<lparr>row_note_id = [], row_title = [], row_desc = [], row_liked_count = liked,
      row_comment_count = DbNull, row_collected_count = DbNull, row_image_list = images,
      row_note_url = [], row_nickname = []\<rparr>"

definition good_row :: db_row where
  \<comment> \<open>\<open>liked_count = '12'\<close>, \<open>image_list = 'http://a, http://b,'\<close>\<close>
  "good_row = row_with (DbStr [49, 50]) (Some (url_a @ [44, 32] @ url_b @ [44]))"

definition odd_row :: db_row where
  \<comment> \<open>\<open>liked_count = 'abc'\<close>, \<open>image_list = 'http://a'\<close>\<close>
  "odd_row = row_with (DbStr [97, 98, 99]) (Some url_a)"

definition comma_row :: db_row where
  \<comment> \<open>\<open>liked_count = '-5'\<close>, \<open>image_list = ','\<close>\<close>
  "comma_row = row_with (DbStr [45, 53]) (Some [44])"

definition blank_liked_row :: db_row where
  \<comment> \<open>\<open>liked_count = ''\<close>, \<open>image_list = 'http://a'\<close>\<close>
  "blank_liked_row = row_with (DbStr []) (Some url_a)"



section \<open>The heuristic selection\<close>

lemma set_first_occurrences: "set (first_occurrences xs) = set xs"
  by (induction xs rule: first_occurrences.induct) auto

lemma distinct_first_occurrences: "distinct (first_occurrences xs)"
  by (induction xs rule: first_occurrences.induct) (auto simp: set_first_occurrences)

lemma length_first_occurrences: "length (first_occurrences xs) = card (set xs)"
  using distinct_card [OF distinct_first_occurrences, of xs]
  by (simp add: set_first_occurrences)

lemma heuristic_scan_eq:
  "heuristic_scan cs n sel (set sel) =
     (if n \<le> int (length sel) then sel
      else take (nat n)
             (sel @ first_occurrences
                      (filter (\<lambda>u. u \<notin> set sel \<and> strip u \<noteq> []) (map url cs))))"
proof (induction cs arbitrary: sel)
  case Nil
  then show ?case by simp
next
  case (Cons c cs)
  show ?case
  proof (cases "n \<le> int (length sel)")
    case True
    then show ?thesis by simp
  next
    case False
    show ?thesis
    proof (cases "url c \<notin> set sel \<and> strip (url c) \<noteq> []")
      case True
      let ?sel = "sel @ [url c]"
      let ?rest = "first_occurrences
          (filter (\<lambda>u. u \<notin> set ?sel \<and> strip u \<noteq> []) (map url cs))"
      have f: "filter (\<lambda>y. y \<noteq> url c)
                 (filter (\<lambda>u. u \<notin> set sel \<and> strip u \<noteq> []) (map url cs))
             = filter (\<lambda>u. u \<notin> set ?sel \<and> strip u \<noteq> []) (map url cs)"
        by (auto intro: filter_cong)
      have step: "heuristic_scan (c # cs) n sel (set sel) = heuristic_scan cs n ?sel (set ?sel)"
        using True False by simp
      have rhs: "sel @ first_occurrences
                   (filter (\<lambda>u. u \<notin> set sel \<and> strip u \<noteq> []) (map url (c # cs)))
                 = ?sel @ ?rest"
        using True by (simp add: f del: set_append filter_filter)
      have fin: "(if n \<le> int (length ?sel) then ?sel else take (nat n) (?sel @ ?rest))
                 = take (nat n) (?sel @ ?rest)"
      proof (cases "n \<le> int (length ?sel)")
        case True
        with False have "nat n = length ?sel" by simp
        then show ?thesis using True by simp
      next
        case False
        then show ?thesis by simp
      qed
      show ?thesis
        unfolding step Cons.IH [of ?sel] rhs fin using False by simp
    next
      case skip: False
      then show ?thesis using False Cons.IH [of sel] by auto
    qed
  qed
qed

lemma heuristic_selection_eq:
  "fst (heuristic_image_selection cands n) =
     take (nat n) (first_occurrences
                     (filter (\<lambda>u. strip u \<noteq> []) (map url (sort_by_liked cands))))"
  using heuristic_scan_eq [of "sort_by_liked cands" n "[]"]
  by (cases "n \<le> 0") (simp_all add: heuristic_image_selection_def slice_to_def Let_def)

lemma snd_heuristic_image_selection:
  "snd (heuristic_image_selection cands n) = sort_by_liked cands"
  by (simp add: heuristic_image_selection_def Let_def)

lemma set_sort_by_liked: "set (sort_by_liked cands) = set cands"
  by (simp add: sort_by_liked_def)

lemma mset_sort_by_liked: "mset (sort_by_liked cands) = mset cands"
  by (simp add: sort_by_liked_def)

lemma descending_iff:
  "sorted (map (\<lambda>c. - cand_liked c) cs) \<longleftrightarrow> sorted (rev (map cand_liked cs))"
  by (simp add: sorted_map sorted_wrt_map sorted_wrt_rev)

lemma sort_by_liked_descending: "sorted (rev (map cand_liked (sort_by_liked cands)))"
proof -
  have "sorted (map (\<lambda>c. - cand_liked c) (sort_by_liked cands))"
    by (simp add: sort_by_liked_def)
  then show ?thesis
    by (simp only: descending_iff)
qed

lemma sort_by_liked_id:
  "sorted (rev (map cand_liked cands)) \<Longrightarrow> sort_by_liked cands = cands"
  unfolding sort_by_liked_def by (rule sort_key_id_if_sorted) (simp only: descending_iff)

lemma sort_by_liked_stable:
  "filter (\<lambda>c. cand_liked c = k) (sort_by_liked cands) = filter (\<lambda>c. cand_liked c = k) cands"
  using sort_key_stable [of "\<lambda>c. - cand_liked c" "- k" cands]
  by (simp add: sort_by_liked_def)

lemma heuristic_urls_subset:
  "set (fst (heuristic_image_selection cands n)) \<subseteq> nonblank_urls cands"
proof -
  have "set (fst (heuristic_image_selection cands n))
          \<subseteq> set (first_occurrences
                   (filter (\<lambda>u. strip u \<noteq> []) (map url (sort_by_liked cands))))"
    unfolding heuristic_selection_eq by (rule set_take_subset)
  then show ?thesis
    by (simp add: set_first_occurrences nonblank_urls_def set_sort_by_liked)
qed

lemma heuristic_length:
  "length (fst (heuristic_image_selection cands n)) = min (nat n) (card (nonblank_urls cands))"
proof -
  have "set (filter (\<lambda>u. strip u \<noteq> []) (map url (sort_by_liked cands))) = nonblank_urls cands"
    by (simp add: nonblank_urls_def set_sort_by_liked)
  then show ?thesis
    by (simp add: heuristic_selection_eq length_first_occurrences min.commute)
qed

text \<open>
  C3. For every candidate list and every target count \<open>n \<ge> 0\<close>, the fallback selection
  returns a list without duplicates of at most \<open>n\<close> URLs: exactly \<open>n\<close> when the
  candidates hold at least \<open>n\<close> distinct non-blank URLs, and as many as there are
  otherwise. The URLs are the first \<open>n\<close> first occurrences of the non-blank URLs of the
  candidates taken in descending order of liked count, candidates of equal liked count
  in their original order (the sorted list is a permutation of the candidates that is
  descending and keeps the order within every liked count).
\<close>

theorem heuristic_image_selection_spec:
  assumes "0 \<le> n"
  shows "distinct (fst (heuristic_image_selection cands n)) \<and>
         int (length (fst (heuristic_image_selection cands n))) \<le> n \<and>
         (n \<le> int (card (nonblank_urls cands)) \<longrightarrow>
            int (length (fst (heuristic_image_selection cands n))) = n) \<and>
         (int (card (nonblank_urls cands)) < n \<longrightarrow>
            length (fst (heuristic_image_selection cands n)) = card (nonblank_urls cands)) \<and>
         fst (heuristic_image_selection cands n) =
           take (nat n) (first_occurrences
                           (filter (\<lambda>u. strip u \<noteq> []) (map url (sort_by_liked cands)))) \<and>
         mset (sort_by_liked cands) = mset cands \<and>
         sorted (rev (map cand_liked (sort_by_liked cands))) \<and>
         (\<forall>k. filter (\<lambda>c. cand_liked c = k) (sort_by_liked cands) =
               filter (\<lambda>c. cand_liked c = k) cands)"
proof -
  have d: "distinct (fst (heuristic_image_selection cands n))"
    unfolding heuristic_selection_eq
    by (rule distinct_take) (rule distinct_first_occurrences)
  have l: "length (fst (heuristic_image_selection cands n)) =
             min (nat n) (card (nonblank_urls cands))"
    by (rule heuristic_length)
  have l1: "int (length (fst (heuristic_image_selection cands n))) \<le> n"
    using assms l by simp
  have l2: "n \<le> int (card (nonblank_urls cands)) \<longrightarrow>
            int (length (fst (heuristic_image_selection cands n))) = n"
    using assms l by auto
  have l3: "int (card (nonblank_urls cands)) < n \<longrightarrow>
            length (fst (heuristic_image_selection cands n)) = card (nonblank_urls cands)"
    using assms l by auto
  show ?thesis
    using d l1 l2 l3 heuristic_selection_eq [of cands n] mset_sort_by_liked [of cands]
      sort_by_liked_descending [of cands] sort_by_liked_stable [of _ cands]
    by blast
qed

lemma scenario_selection:
  "fst (heuristic_image_selection scenario_candidates 2) = [url_b, url_c]"
  by (simp add: heuristic_image_selection_def sort_by_liked_def scenario_candidates_def
      cand_def url_a_def url_b_def url_c_def slice_to_def strip_def isspace_def Let_def)

theorem heuristic_image_selection_spec_witness:
  "(0::int) \<le> 2 \<and>
   fst (heuristic_image_selection scenario_candidates 2) = [url_b, url_c] \<and>
   distinct (fst (heuristic_image_selection scenario_candidates 2)) \<and>
   int (length (fst (heuristic_image_selection scenario_candidates 2))) \<le> 2"
proof -
  have h: "(0::int) \<le> 2" by simp
  note v = scenario_selection
  show ?thesis
    using h v heuristic_image_selection_spec [OF h, of scenario_candidates]
    by (simp add: url_b_def url_c_def)
qed

section \<open>Candidate aggregation\<close>

lemma post_images_eq:
  "post_images post urls acc = acc @ map (candidate_of post) urls"
  by (induction urls arbitrary: acc) simp_all

lemma all_images_eq:
  "all_images ps acc = acc @ concat (map (\<lambda>p. map (candidate_of p) (image_list p)) ps)"
  by (induction ps arbitrary: acc) (simp_all add: post_images_eq)

lemma collect_candidates_eq:
  "collect_candidates ps =
     concat (map (\<lambda>p. map (candidate_of p) (image_list p)) (take 50 ps))"
  by (simp add: collect_candidates_def all_images_eq)

lemma url_candidate_of: "url (candidate_of p u) = u"
  by (simp add: candidate_of_def)

lemma urls_candidate_of: "map (\<lambda>u. url (candidate_of p u)) us = us"
  by (simp add: url_candidate_of)

text \<open>
  C7. For every ranked post list, the aggregation yields one candidate per image URL of
  each of the first 50 posts (of all of them when there are fewer): the candidates of
  the first post in the order of its images, then those of the second post, and so on,
  each carrying the fields of its post. The length is the sum of the lengths of the
  image lists over that window, and the URLs are the image lists of the window
  concatenated, so a URL listed by two posts gives two candidates.
\<close>

theorem collect_candidates_spec:
  "collect_candidates ps =
     concat (map (\<lambda>p. map (candidate_of p) (image_list p)) (take 50 ps)) \<and>
   length (collect_candidates ps) = sum_list (map (\<lambda>p. length (image_list p)) (take 50 ps)) \<and>
   map url (collect_candidates ps) = concat (map image_list (take 50 ps))"
proof -
  have len: "length (concat (map (\<lambda>p. map (candidate_of p) (image_list p)) qs)) =
             sum_list (map (\<lambda>p. length (image_list p)) qs)" for qs
    by (induction qs) simp_all
  have urls: "map url (concat (map (\<lambda>p. map (candidate_of p) (image_list p)) qs)) =
              concat (map image_list qs)" for qs
    by (induction qs) (simp_all add: urls_candidate_of comp_def)
  show ?thesis
    unfolding collect_candidates_eq using len [of "take 50 ps"] urls [of "take 50 ps"]
    by simp
qed

theorem collect_candidates_spec_witness:
  "length (collect_candidates two_posts) = 3 \<and>
   map url (collect_candidates two_posts) = [url_a, url_b, url_a]"
  using collect_candidates_spec [of two_posts]
  by (simp add: two_posts_def post_with_def url_candidate_of)

section \<open>The template synthesis\<close>

lemma generate_template_content_eq:
  "generate_template_content b reference_posts kwd =
     title_1 @ kwd @ title_2 @ [10, 10] @
     join [10]
       [intro_1 @ kwd @ intro_2, [], taste_heading, taste_body, [], service_heading,
        service_body, [], ambience_heading, ambience_body, [], price_heading, price_body,
        [], closing_1 @ kwd @ closing_2, [], hashtags]"
  by (simp add: generate_template_content_def Let_def)

text \<open>
  C4. For every list of reference posts, the empty one included, and every keyword, the
  template synthesis returns a text that is not empty and contains the keyword. The
  function is total: no step of it can raise.
\<close>

theorem generate_template_content_has_keyword:
  "generate_template_content b reference_posts kwd \<noteq> [] \<and>
   sublist kwd (generate_template_content b reference_posts kwd)"
proof -
  have "title_1 \<noteq> []"
    by (simp add: title_1_def)
  then have nonempty: "generate_template_content b reference_posts kwd \<noteq> []"
    unfolding generate_template_content_eq by simp
  have "sublist kwd (generate_template_content b reference_posts kwd)"
    unfolding generate_template_content_eq by (rule sublist_appendI)
  with nonempty show ?thesis by simp
qed

theorem generate_template_content_has_keyword_witness:
  "generate_template_content python [] kw \<noteq> [] \<and>
   sublist kw (generate_template_content python [] kw)"
  using generate_template_content_has_keyword [of python "[]" kw] by simp

text \<open>
  C9. For every keyword and any two lists of reference posts, the template synthesis
  returns the same text: the categories found in the reference posts are computed and
  never used.
\<close>

theorem generate_template_content_ignores_posts:
  "generate_template_content b posts1 kwd = generate_template_content b posts2 kwd"
  by (simp add: generate_template_content_eq)

theorem generate_template_content_ignores_posts_witness:
  "scan_keywords (str_lower python) [tasty_reference] [] = [taste_tag] \<and>
   scan_keywords (str_lower python) [] [] = [] \<and>
   generate_template_content python [tasty_reference] kw =
     generate_template_content python [] kw"
proof -
  have hit: "sublist [22909, 21507] ([32, 22909, 21507] :: nat list)"
    using sublist_appendI [of "[22909, 21507]" "[32]" "[]"] by simp
  have scan: "scan_keywords (str_lower python) [tasty_reference] [] = [taste_tag]"
    using hit
    by (simp add: python_def lower_ascii_def tasty_reference_def taste_words_def
        ambience_words_def service_words_def value_words_def sublist_Cons_right Let_def)
  show ?thesis
    using scan generate_template_content_ignores_posts [of python "[tasty_reference]" kw "[]"]
    by simp
qed

section \<open>Selection and synthesis with their fallbacks\<close>

lemma fst_analyze_images_content:
  "fst (analyze_images_content w cands k n) =
     (case selection_try w (select_prompt cands k n) n of
        Inr urls \<Rightarrow> Inr urls
      | Inl e \<Rightarrow> Inr (fst (heuristic_image_selection cands n)))"
  by (simp add: analyze_images_content_def Let_def split: sum.splits prod.splits)

lemma snd_analyze_images_content:
  "snd (analyze_images_content w cands k n) =
     (case selection_try w (select_prompt cands k n) n of
        Inr urls \<Rightarrow> cands
      | Inl e \<Rightarrow> sort_by_liked cands)"
  by (simp add: analyze_images_content_def Let_def heuristic_image_selection_def
      split: sum.splits)


lemma offline_selection_try: "selection_try offline_world prompt n = Inl Exception"
  by (simp add: selection_try_def call_backend_def use_openai_def call_local_model_def
      offline_world_def)


lemma chatty_call_backend: "call_backend chatty_world prompt = Inr (Text url_x)"
  by (simp add: call_backend_def use_openai_def call_local_model_def chatty_world_def)

lemma parse_url_lines_url_x: "parse_url_lines url_x = [url_x]"
  by (simp add: parse_url_lines_def url_x_def strip_def isspace_def startswith_def http_def)

lemma chatty_selection_try: "selection_try chatty_world prompt 9 = Inr [url_x]"
  by (simp add: selection_try_def chatty_call_backend parse_url_lines_url_x slice_to_def)



lemma set_parse_url_lines:
  "set (parse_url_lines response) =
     {strip line | line. line \<in> set (split_on 10 response) \<and> strip line \<noteq> [] \<and>
                         startswith (strip line) http}"
  by (auto simp: parse_url_lines_def)

lemma length_slice_to: "0 \<le> n \<Longrightarrow> int (length (slice_to n xs)) \<le> n"
  by (simp add: slice_to_def)

lemma set_slice_to: "set (slice_to n xs) \<subseteq> set xs"
  by (simp add: slice_to_def set_take_subset)

lemma nonblank_urls_subset: "nonblank_urls cands \<subseteq> url ` set cands"
  by (auto simp: nonblank_urls_def)

text \<open>
  C5, as stated, fails: the URLs of the primary path are lines of the backend's reply and
  are not compared with the candidates. Here the local model answers \<open>http://x\<close> and the
  only candidate is \<open>http://a\<close>.
\<close>

theorem selection_not_subset_counterexample:
  "fst (analyze_images_content chatty_world [cand url_a 5] kw 9) = Inr [url_x] \<and>
   url_x \<notin> url ` set [cand url_a 5]"
  by (simp add: fst_analyze_images_content chatty_selection_try cand_def url_x_def url_a_def)

text \<open>
  C5, amended. For every candidate list, keyword, target count \<open>n \<ge> 0\<close> and every
  behaviour of the backend, the selection returns between 0 and \<open>n\<close> URLs. On the
  fallback path every returned URL is the URL of an input candidate; on the primary path
  every returned URL is a trimmed line of the backend's reply that starts with \<open>http\<close>,
  whether or not a candidate has it.
\<close>

theorem selection_result_shape:
  assumes "0 \<le> n"
  shows "\<exists>urls. fst (analyze_images_content w cands k n) = Inr urls \<and>
           int (length urls) \<le> n \<and>
           ((\<exists>e. selection_try w (select_prompt cands k n) n = Inl e) \<longrightarrow>
              set urls \<subseteq> url ` set cands) \<and>
           (\<forall>response. call_backend w (select_prompt cands k n) = Inr (Text response) \<longrightarrow>
              set urls \<subseteq> {strip line | line. line \<in> set (split_on 10 response) \<and>
                                                startswith (strip line) http})"
proof (cases "selection_try w (select_prompt cands k n) n")
  case (Inl e)
  let ?urls = "fst (heuristic_image_selection cands n)"
  have r: "fst (analyze_images_content w cands k n) = Inr ?urls"
    by (simp add: fst_analyze_images_content Inl)
  have len: "int (length ?urls) \<le> n"
    using assms by (simp add: heuristic_length)
  have sub: "set ?urls \<subseteq> url ` set cands"
    using heuristic_urls_subset [of cands n] nonblank_urls_subset [of cands] by blast
  have no_text: "call_backend w (select_prompt cands k n) \<noteq> Inr (Text response)" for response
    using Inl by (auto simp: selection_try_def)
  show ?thesis
    using r len sub no_text by auto
next
  case (Inr urls)
  have r: "fst (analyze_images_content w cands k n) = Inr urls"
    by (simp add: fst_analyze_images_content Inr)
  obtain response where resp: "call_backend w (select_prompt cands k n) = Inr (Text response)"
    and urls: "urls = slice_to n (parse_url_lines response)"
    using Inr by (auto simp: selection_try_def split: sum.splits reply.splits)
  have len: "int (length urls) \<le> n"
    unfolding urls using assms by (rule length_slice_to)
  have sub: "set urls \<subseteq> {strip line | line. line \<in> set (split_on 10 response) \<and>
                                              startswith (strip line) http}"
    unfolding urls using set_slice_to [of n "parse_url_lines response"]
    by (auto simp: set_parse_url_lines)
  show ?thesis
    using r len sub resp Inr by auto
qed

theorem selection_result_shape_witness:
  "(0::int) \<le> 9 \<and>
   call_backend chatty_world (select_prompt [cand url_a 5] kw 9) = Inr (Text url_x) \<and>
   fst (analyze_images_content chatty_world [cand url_a 5] kw 9) = Inr [url_x] \<and>
   fst (analyze_images_content offline_world scenario_candidates kw 2) = Inr [url_b, url_c]"
proof -
  have h: "(0::int) \<le> 9" by simp
  have a: "fst (analyze_images_content chatty_world [cand url_a 5] kw 9) = Inr [url_x]"
    by (simp add: fst_analyze_images_content chatty_selection_try)
  have o: "fst (analyze_images_content offline_world scenario_candidates kw 2) =
             Inr [url_b, url_c]"
    by (simp add: fst_analyze_images_content offline_selection_try scenario_selection)
  show ?thesis
    using h a o chatty_call_backend [of "select_prompt [cand url_a 5] kw 9"]
      selection_result_shape [OF h, of chatty_world "[cand url_a 5]" kw]
    by simp
qed

text \<open>
  C10, as stated, fails: the fallback sorts the caller's list in place. With no backend
  available, candidates with liked counts 50 and 200 are left in the order 200, 50.
\<close>

theorem selection_reorders_counterexample:
  "snd (analyze_images_content offline_world two_candidates kw 9) =
     [cand url_b 200, cand url_a 50] \<and>
   snd (analyze_images_content offline_world two_candidates kw 9) \<noteq> two_candidates"
  by (simp add: snd_analyze_images_content offline_selection_try sort_by_liked_def
      two_candidates_def cand_def url_a_def url_b_def)

text \<open>
  C10, amended. The primary path leaves the candidate list as it was. The fallback path
  sorts it in place, stably, by descending liked count: afterwards the list holds the
  same candidates (as a multiset), and it is unchanged when it already was in descending
  order of liked count.
\<close>

theorem selection_candidate_list_effect:
  "mset (snd (analyze_images_content w cands k n)) = mset cands \<and>
   (\<forall>urls. selection_try w (select_prompt cands k n) n = Inr urls \<longrightarrow>
        snd (analyze_images_content w cands k n) = cands) \<and>
   (\<forall>e. selection_try w (select_prompt cands k n) n = Inl e \<longrightarrow>
        snd (analyze_images_content w cands k n) = sort_by_liked cands) \<and>
   (sorted (rev (map cand_liked cands)) \<longrightarrow>
        snd (analyze_images_content w cands k n) = cands)"
proof -
  have m: "mset (snd (analyze_images_content w cands k n)) = mset cands"
    by (simp add: snd_analyze_images_content mset_sort_by_liked split: sum.splits)
  have p: "\<forall>urls. selection_try w (select_prompt cands k n) n = Inr urls \<longrightarrow>
        snd (analyze_images_content w cands k n) = cands"
    by (simp add: snd_analyze_images_content)
  have f: "\<forall>e. selection_try w (select_prompt cands k n) n = Inl e \<longrightarrow>
        snd (analyze_images_content w cands k n) = sort_by_liked cands"
    by (simp add: snd_analyze_images_content)
  have s: "sorted (rev (map cand_liked cands)) \<longrightarrow>
        snd (analyze_images_content w cands k n) = cands"
    by (simp add: snd_analyze_images_content sort_by_liked_id split: sum.splits)
  from m p f s show ?thesis by blast
qed

theorem selection_candidate_list_effect_witness:
  "selection_try chatty_world (select_prompt two_candidates kw 9) 9 = Inr [url_x] \<and>
   snd (analyze_images_content chatty_world two_candidates kw 9) = two_candidates \<and>
   selection_try offline_world (select_prompt two_candidates kw 9) 9 = Inl Exception \<and>
   snd (analyze_images_content offline_world two_candidates kw 9) =
     sort_by_liked two_candidates"
  using selection_candidate_list_effect [of chatty_world two_candidates kw 9]
    selection_candidate_list_effect [of offline_world two_candidates kw 9]
    chatty_selection_try [of "select_prompt two_candidates kw 9"]
    offline_selection_try [of "select_prompt two_candidates kw 9" 9]
  by simp

section \<open>Posts from the rows of the store\<close>

lemma int_or_zero_error: "int_or_zero b v = Inl e \<Longrightarrow> e = ValueError"
  by (auto simp: int_or_zero_def split: dbval.splits if_splits option.splits)

lemma liked_count_of_eq:
  "liked_count_of b v = Inr (case int_or_zero b v of Inr i \<Rightarrow> i | Inl e \<Rightarrow> 0)"
  by (auto simp: liked_count_of_def dest: int_or_zero_error split: sum.splits)


lemma row_to_post_returns:
  assumes "\<not> isl (int_or_zero b (row_comment_count r))"
    and "\<not> isl (int_or_zero b (row_collected_count r))"
  shows "\<exists>p. row_to_post b r = Inr p"
  using assms
  by (auto simp: row_to_post_def Let_def liked_count_of_eq split: sum.splits)

lemma row_to_post_fields:
  assumes "row_to_post b r = Inr p"
  shows "note_id p = row_note_id r"
    and "image_list p = parse_image_list (row_image_list r)"
    and "liked_count p = (case int_or_zero b (row_liked_count r) of Inr i \<Rightarrow> i | Inl e \<Rightarrow> 0)"
  using assms
  by (auto simp: row_to_post_def Let_def liked_count_of_eq split: sum.splits)

lemma convert_rows_eq:
  assumes "\<forall>r \<in> set rows. \<not> isl (row_to_post b r)"
  shows "convert_rows b rows acc = Inr (acc @ map (\<lambda>r. projr (row_to_post b r)) rows)"
  using assms
proof (induction rows arbitrary: acc)
  case Nil
  then show ?case by simp
next
  case (Cons r rows)
  from Cons.prems obtain p where p: "row_to_post b r = Inr p"
    by (cases "row_to_post b r") auto
  from Cons.prems have rest: "\<forall>r \<in> set rows. \<not> isl (row_to_post b r)"
    by simp
  show ?case
    using Cons.IH [OF rest, of "acc @ [p]"] p by simp
qed



lemma parse_image_list_eq:
  "parse_image_list field =
     (case field of
        None \<Rightarrow> []
      | Some s \<Rightarrow> map strip (filter (\<lambda>x. strip x \<noteq> []) (split_on 44 s)))"
  by (simp add: parse_image_list_def strip_def split: option.splits)

lemma good_row_post: "row_to_post python good_row = Inr (post_with [] 12 [url_a, url_b])"
  by (simp add: row_to_post_def good_row_def row_with_def post_with_def Let_def
      parse_image_list_def liked_count_of_def int_or_zero_def python_def int_ascii_def
      digits_ascii_def strip_def isspace_def url_a_def url_b_def)

text \<open>
  C6, as stated, fails for the empty liked count: \<open>int('')\<close> raises, and a record whose
  \<open>liked_count\<close> is the empty string never reaches the post list, because the query's
  \<open>WHERE\<close> clause (\<open>liked_count != ''\<close>) leaves it out. From a table that holds this record
  alone the post list is empty.
\<close>

theorem blank_liked_count_counterexample:
  "row_liked_count blank_liked_row = DbStr [] \<and> int_ascii [] = None \<and>
   \<not> where_clause any_keyword blank_liked_row \<and>
   convert_rows python (admitted any_keyword [blank_liked_row]) [] = Inr []"
  by (simp add: blank_liked_row_def row_with_def int_ascii_def strip_def where_clause_def
      sql_not_empty_def admitted_def)

text \<open>
  C6, amended. For every list of records the query returns in which the comment and
  collected counters of every record convert, the conversion returns one Post per record,
  in the same order; a record whose liked count is a string that fails numeric parsing is
  the Post at its own position, with liked count 0. A record whose liked count is \<open>NULL\<close>
  or the empty string is not among the records the query returns.
\<close>

theorem unparsable_liked_count_is_zero:
  assumes "\<forall>r \<in> set rows. \<not> isl (int_or_zero b (row_comment_count r)) \<and>
                          \<not> isl (int_or_zero b (row_collected_count r))"
    and "i < length rows"
    and "row_liked_count (rows ! i) = DbStr s"
    and "int_str b s = None"
  shows "(\<exists>ps. convert_rows b rows [] = Inr ps \<and> length ps = length rows \<and>
               note_id (ps ! i) = row_note_id (rows ! i) \<and> liked_count (ps ! i) = 0) \<and>
         (row_liked_count r = DbNull \<or> row_liked_count r = DbStr [] \<longrightarrow>
            \<not> where_clause km r)"
proof -
  have all: "\<forall>r \<in> set rows. \<not> isl (row_to_post b r)"
  proof
    fix r assume "r \<in> set rows"
    with assms(1) obtain p where "row_to_post b r = Inr p"
      using row_to_post_returns [of b r] by blast
    then show "\<not> isl (row_to_post b r)" by simp
  qed
  let ?ps = "map (\<lambda>r. projr (row_to_post b r)) rows"
  have conv: "convert_rows b rows [] = Inr ?ps"
    using convert_rows_eq [OF all, of "[]"] by simp
  from assms(2) have "rows ! i \<in> set rows"
    by simp
  with all have "\<not> isl (row_to_post b (rows ! i))"
    by blast
  then obtain p where p: "row_to_post b (rows ! i) = Inr p"
    by (cases "row_to_post b (rows ! i)") auto
  have at: "?ps ! i = p"
    using assms(2) p by simp
  have zero: "int_or_zero b (DbStr s) = Inr 0 \<or> int_or_zero b (DbStr s) = Inl ValueError"
    using assms(4) by (simp add: int_or_zero_def)
  have liked: "liked_count p = 0"
    using row_to_post_fields(3) [OF p] assms(3) zero by auto
  have ident: "note_id p = row_note_id (rows ! i)"
    by (rule row_to_post_fields(1) [OF p])
  have excluded: "row_liked_count r = DbNull \<or> row_liked_count r = DbStr [] \<longrightarrow>
                  \<not> where_clause km r"
    by (auto simp: where_clause_def sql_not_empty_def)
  show ?thesis
    using conv at liked ident excluded by simp
qed

theorem unparsable_liked_count_is_zero_witness:
  "int_ascii [97, 98, 99] = None \<and> where_clause any_keyword odd_row \<and>
   convert_rows python [good_row, odd_row] [] =
     Inr [post_with [] 12 [url_a, url_b], post_with [] 0 [url_a]]"
proof -
  have parse: "int_str python [97, 98, 99] = None"
    by (simp add: python_def int_ascii_def digits_ascii_def strip_def isspace_def)
  have ok: "\<forall>r \<in> set [good_row, odd_row].
              \<not> isl (int_or_zero python (row_comment_count r)) \<and>
              \<not> isl (int_or_zero python (row_collected_count r))"
    by (simp add: good_row_def odd_row_def row_with_def int_or_zero_def)
  have i: "(1::nat) < length [good_row, odd_row]" by simp
  have at: "row_liked_count ([good_row, odd_row] ! 1) = DbStr [97, 98, 99]"
    by (simp add: odd_row_def row_with_def)
  have odd: "row_to_post python odd_row = Inr (post_with [] 0 [url_a])"
    using parse
    by (simp add: row_to_post_def odd_row_def row_with_def post_with_def Let_def
        parse_image_list_def liked_count_of_def int_or_zero_def strip_def isspace_def
        url_a_def)
  have w: "where_clause any_keyword odd_row"
    by (simp add: where_clause_def any_keyword_def odd_row_def row_with_def
        sql_not_empty_def url_a_def)
  show ?thesis
    using unparsable_liked_count_is_zero [OF ok i at parse] parse w odd good_row_post
    by (simp add: python_def)
qed

text \<open>
  C8, as stated, fails: the query keeps a record whose \<open>image_list\<close> is \<open>','\<close> and whose
  \<open>liked_count\<close> is \<open>'-5'\<close>, and the Post built from it has no image and a negative
  liked count.
\<close>

theorem empty_image_list_counterexample:
  "where_clause any_keyword comma_row \<and>
   row_to_post python comma_row = Inr (post_with [] (- 5) []) \<and>
   convert_rows python (admitted any_keyword [comma_row]) [] = Inr [post_with [] (- 5) []]"
proof -
  have w: "where_clause any_keyword comma_row"
    by (simp add: where_clause_def any_keyword_def comma_row_def row_with_def
        sql_not_empty_def)
  have p: "row_to_post python comma_row = Inr (post_with [] (- 5) [])"
    by (simp add: comma_row_def row_with_def row_to_post_def post_with_def Let_def
        parse_image_list_def liked_count_of_def int_or_zero_def python_def int_ascii_def
        digits_ascii_def strip_def isspace_def)
  from w p show ?thesis
    by (simp add: admitted_def)
qed

text \<open>
  C8, amended. Every Post constructed from a store record has as image list the raw
  field split on commas, each piece trimmed and the blank pieces dropped (the empty list
  for a \<open>NULL\<close> field): it holds no empty URL, and it is non-empty exactly when some piece
  of the raw field is not blank. Its liked count is the integer the field converts to, and
  0 when the conversion fails, so it is negative exactly when the field holds a negative
  number. The query leaves out the records whose raw \<open>image_list\<close> or \<open>liked_count\<close> is
  \<open>NULL\<close> or the empty string (or the number 0, which MySQL compares equal to it), and
  no others on account of these two fields.
\<close>

theorem post_of_row:
  assumes "row_to_post b r = Inr p"
  shows "image_list p =
           (case row_image_list r of
              None \<Rightarrow> []
            | Some s \<Rightarrow> map strip (filter (\<lambda>x. strip x \<noteq> []) (split_on 44 s))) \<and>
         (\<forall>u \<in> set (image_list p). u \<noteq> []) \<and>
         (image_list p \<noteq> [] \<longleftrightarrow>
            (\<exists>s x. row_image_list r = Some s \<and> x \<in> set (split_on 44 s) \<and> strip x \<noteq> [])) \<and>
         liked_count p = (case int_or_zero b (row_liked_count r) of Inr i \<Rightarrow> i | Inl e \<Rightarrow> 0) \<and>
         (liked_count p < 0 \<longleftrightarrow> (\<exists>i. int_or_zero b (row_liked_count r) = Inr i \<and> i < 0)) \<and>
         (where_clause km r \<longleftrightarrow>
            km r \<and> sql_not_empty (row_liked_count r) \<and> row_image_list r \<noteq> None \<and>
            row_image_list r \<noteq> Some [])"
proof -
  have img: "image_list p =
           (case row_image_list r of
              None \<Rightarrow> []
            | Some s \<Rightarrow> map strip (filter (\<lambda>x. strip x \<noteq> []) (split_on 44 s)))"
    unfolding row_to_post_fields(2) [OF assms] by (rule parse_image_list_eq)
  have ne: "\<forall>u \<in> set (image_list p). u \<noteq> []"
    unfolding img by (auto split: option.splits)
  have some: "image_list p \<noteq> [] \<longleftrightarrow>
            (\<exists>s x. row_image_list r = Some s \<and> x \<in> set (split_on 44 s) \<and> strip x \<noteq> [])"
    unfolding img by (auto simp: filter_empty_conv split: option.splits)
  have liked: "liked_count p =
                 (case int_or_zero b (row_liked_count r) of Inr i \<Rightarrow> i | Inl e \<Rightarrow> 0)"
    by (rule row_to_post_fields(3) [OF assms])
  have neg: "liked_count p < 0 \<longleftrightarrow> (\<exists>i. int_or_zero b (row_liked_count r) = Inr i \<and> i < 0)"
    unfolding liked by (auto split: sum.splits)
  have wh: "where_clause km r \<longleftrightarrow>
            km r \<and> sql_not_empty (row_liked_count r) \<and> row_image_list r \<noteq> None \<and>
            row_image_list r \<noteq> Some []"
    by (auto simp: where_clause_def split: option.splits)
  from img ne some liked neg wh show ?thesis by blast
qed

theorem post_of_row_witness:
  "row_to_post python good_row = Inr (post_with [] 12 [url_a, url_b]) \<and>
   image_list (post_with [] 12 [url_a, url_b]) = [url_a, url_b] \<and>
   liked_count (post_with [] 12 [url_a, url_b]) = 12 \<and>
   where_clause any_keyword good_row"
proof -
  have w: "where_clause any_keyword good_row"
    by (simp add: where_clause_def any_keyword_def good_row_def row_with_def
        sql_not_empty_def)
  show ?thesis
    using post_of_row [OF good_row_post, of any_keyword] good_row_post w
    by (simp add: post_with_def)
qed

section \<open>The orchestrator\<close>














end
